theory Spec2Isabelle
  imports Complex_Main
begin

section \<open>Data model\<close>

text \<open>
  The Python sources compute with floats (and numpy float64 arrays). The embedding reads every
  float as a real number: rounding, infinities and NaN are not represented. Where a float
  division by a zero parameter would give an infinity, the model has nothing to say, and the
  theorems that depend on such a quotient assume the divisor positive. The one place where
  rounding decides a claim, the CO2 balance, has a second embedding in float64 arithmetic.
\<close>

subsection \<open>hvac_sim/parameters.py: the dataclass Params\<close>

record Params =
  R_oa :: real
  R_wz :: real
  R_ow :: real
  C_z :: real
  C_w :: real
  COP :: real
  P_fan_des :: real
  m_air_des :: real
  V :: real
  ACH :: real
  E_occ :: real
  c_p :: real
  COP_cool :: real
  COP_heat :: real

text \<open>\<^verbatim>\<open>Params()\<close>: every field at its default. The dataclass has no \<^verbatim>\<open>__post_init__\<close>
  and no validation; a call with keyword arguments is a record update of the defaults.\<close>

definition default_Params :: Params where
  "default_Params =
     \<lparr> R_oa = 3.0, R_wz = 1.6, R_ow = 2.0, C_z = 3000.0, C_w = 15000.0,
       COP = 3.5, P_fan_des = 1.2, m_air_des = 2.5,
       V = 240.0, ACH = 0.4, E_occ = 0.005, c_p = 1.006,
       COP_cool = 3.5, COP_heat = 3.0 \<rparr>"

definition C_z_kW :: "Params \<Rightarrow> real" where
  "C_z_kW p = C_z p"

definition C_w_kW :: "Params \<Rightarrow> real" where
  "C_w_kW p = C_w p"

subsection \<open>Exceptions\<close>

datatype error =
    KeyError string
  | ValueError
  | TypeError
  | IndexError
  | ZeroDivisionError
  | OverflowError

section \<open>hvac_sim/physics.py\<close>

definition hvac_power :: "real \<Rightarrow> real \<Rightarrow> Params \<Rightarrow> real \<times> real" where
  "hvac_power Tz Tset p =
     (let m_air = m_air_des p;
          delta = Tz - Tset
      in if delta > 0 then
           (let Q = m_air * c_p p * delta;
                P = Q / COP p + P_fan_des p
            in (Q, P))
         else if delta < 0 then
           (let Q = m_air * c_p p * delta;
                P = \<bar>Q\<bar> / COP p + P_fan_des p
            in (Q, P))
         else (0, 0))"

text \<open>The input dictionary of \<^verbatim>\<open>rhs\<close> (\<^verbatim>\<open>Dict[str, float]\<close>): string keys, float values read as
  reals. The int that the callbacks store under \<^verbatim>\<open>N_occ\<close> is converted to a float by the first
  operation on it; the conversion and its OverflowError are in the model of that call,
  \<open>step_from_callback\<close> below.\<close>

type_synonym inputs = "string \<rightharpoonup> real"

text \<open>The zone balance of \<^verbatim>\<open>rhs\<close> (lines 46 to 49), with the HVAC heat term as an argument.\<close>

definition zone_balance :: "real \<Rightarrow> real \<Rightarrow> real \<Rightarrow> real \<Rightarrow> real \<Rightarrow> Params \<Rightarrow> real" where
  "zone_balance T_out Tz Tw Q_int Q_HVAC p =
     ((T_out - Tz) / R_oa p +
      (Tw - Tz) / R_wz p +
      Q_int / 1000 -
      Q_HVAC) / C_z_kW p"

text \<open>
  \<^verbatim>\<open>rhs(state, inp, p)\<close> returns the array \<^verbatim>\<open>[dTz, dTw, dCO2, P_e]\<close>. Unpacking a state that
  has not exactly three components raises ValueError; a missing required key raises KeyError,
  in the order the keys are read.
\<close>

definition rhs :: "real list \<Rightarrow> inputs \<Rightarrow> Params \<Rightarrow> error + real list" where
  "rhs state inp p =
     (case state of
        [Tz, Tw, CO2] \<Rightarrow>
          (case inp ''T_out'' of
             None \<Rightarrow> Inl (KeyError ''T_out'')
           | Some T_out \<Rightarrow>
          (case inp ''N_occ'' of
             None \<Rightarrow> Inl (KeyError ''N_occ'')
           | Some N_occ \<Rightarrow>
          (case inp ''T_set'' of
             None \<Rightarrow> Inl (KeyError ''T_set'')
           | Some Tset \<Rightarrow>
             (let I_sol = (case inp ''I_sol'' of None \<Rightarrow> 0 | Some v \<Rightarrow> v);
                  Q_int = (case inp ''Q_int'' of None \<Rightarrow> 100 * N_occ | Some v \<Rightarrow> v);
                  (Q_HVAC, Pe) = hvac_power Tz Tset p;
                  dTz = zone_balance T_out Tz Tw Q_int Q_HVAC p;
                  dTw = ((Tz - Tw) / R_wz p +
                         (T_out - Tw) / R_ow p +
                         I_sol / 1000) / C_w_kW p;
                  Vdot_inf = ACH p * V p / 3600;
                  C_out = 400;
                  E_m3s = E_occ p * N_occ / 1000;
                  dCO2 = (Vdot_inf * (C_out - CO2) + E_m3s * 1000000) / V p
              in Inr [dTz, dTw, dCO2, Pe]))))
      | _ \<Rightarrow> Inl ValueError)"

section \<open>hvac_sim/simulator.py: the class HVACSimulator\<close>

record HVACSimulator =
  state :: "real list"
  params :: Params
  dt_s :: int
  cumulative_energy_kwh :: real

text \<open>The dictionary returned by \<^verbatim>\<open>step\<close>, one field for each key.\<close>

record StepResult =
  T_z :: real
  T_w :: real
  CO2_z :: real
  P_e :: real
  E_KWh_cumulative :: real

definition HVACSimulator_init :: "real list \<Rightarrow> Params \<Rightarrow> int \<Rightarrow> HVACSimulator" where
  "HVACSimulator_init initial_state ps dt =
     \<lparr> state = initial_state, params = ps, dt_s = dt, cumulative_energy_kwh = 0 \<rparr>"

text \<open>
  \<^verbatim>\<open>step\<close> calls \<^verbatim>\<open>rhs\<close> before it writes anything, so an exception of \<^verbatim>\<open>rhs\<close> leaves the
  object as it was: the model returns the exception alone and the caller keeps the old
  simulator. Otherwise it returns the updated simulator and the result dictionary.
\<close>

definition step :: "HVACSimulator \<Rightarrow> inputs \<Rightarrow> error + (HVACSimulator \<times> StepResult)" where
  "step self inp =
     (case rhs (state self) inp (params self) of
        Inl e \<Rightarrow> Inl e
      | Inr deriv \<Rightarrow>
          (let state' = map2 (\<lambda>s d. s + d * real_of_int (dt_s self)) (state self) (take 3 deriv);
               power_kw = deriv ! 3;
               energy' = cumulative_energy_kwh self + power_kw * real_of_int (dt_s self) / 3600;
               self' = self \<lparr> state := state', cumulative_energy_kwh := energy' \<rparr>;
               results = \<lparr> T_z = state' ! 0, T_w = state' ! 1, CO2_z = state' ! 2,
                           P_e = power_kw, E_KWh_cumulative = energy' \<rparr>
           in Inr (self', results)))"

text \<open>Repeated calls of \<^verbatim>\<open>step\<close>, one for each input; the first exception ends the run.\<close>

fun steps :: "HVACSimulator \<Rightarrow> inputs list \<Rightarrow> error + (HVACSimulator \<times> StepResult list)" where
  "steps self [] = Inr (self, [])"
| "steps self (inp # rest) =
     (case step self inp of
        Inl e \<Rightarrow> Inl e
      | Inr (self', r) \<Rightarrow>
          (case steps self' rest of
             Inl e \<Rightarrow> Inl e
           | Inr (self'', rs) \<Rightarrow> Inr (self'', r # rs)))"

section \<open>hvac_sim/simulate.py: the batch engine\<close>

text \<open>
  A pandas DataFrame: the column names, and for each row its index value and the cell values
  in column order. \<^verbatim>\<open>iterrows\<close> hands each row to the loop as a Series, which \<^verbatim>\<open>rhs\<close> reads
  like a dictionary keyed by column name.
\<close>

record 't DataFrame =
  columns :: "string list"
  rows :: "('t \<times> real list) list"

definition row_series :: "string list \<Rightarrow> real list \<Rightarrow> inputs" where
  "row_series cols vals = map_of (zip cols vals)"

definition iterrows :: "'t DataFrame \<Rightarrow> ('t \<times> inputs) list" where
  "iterrows df = map (\<lambda>(t, vals). (t, row_series (columns df) vals)) (rows df)"

text \<open>
  The main loop of \<^verbatim>\<open>run_simulation\<close> (lines 24 to 36), from the state and energy it has when
  it reaches a row. Each record is the tuple \<^verbatim>\<open>(t, state[0], state[1], state[2], P_e, energy)\<close>.
\<close>

fun run_simulation_loop ::
  "real list \<Rightarrow> real \<Rightarrow> ('t \<times> inputs) list \<Rightarrow> Params \<Rightarrow> int \<Rightarrow>
     error + ('t \<times> real \<times> real \<times> real \<times> real \<times> real) list" where
  "run_simulation_loop st energy [] p dt = Inr []"
| "run_simulation_loop st energy ((t, row) # rest) p dt =
     (case rhs st row p of
        Inl e \<Rightarrow> Inl e
      | Inr deriv \<Rightarrow>
          (let st' = map2 (\<lambda>s d. s + d * real_of_int dt) (take 3 st) (take 3 deriv) @ drop 3 st;
               Pe = deriv ! 3;
               energy' = energy + Pe * real_of_int dt / 3600
           in (case run_simulation_loop st' energy' rest p dt of
                 Inl e \<Rightarrow> Inl e
               | Inr rec \<Rightarrow> Inr ((t, st' ! 0, st' ! 1, st' ! 2, Pe, energy') # rec))))"

text \<open>Python's \<^verbatim>\<open>int(x)\<close> on a float truncates toward zero.\<close>

definition int_of_float :: "real \<Rightarrow> int" where
  "int_of_float x = (if x \<ge> 0 then \<lfloor>x\<rfloor> else \<lceil>x\<rceil>)"

text \<open>\<^verbatim>\<open>Series.shift(n)\<close>: entry \<open>i\<close> of the result is entry \<open>i - n\<close> of the series, NaN
  (here \<open>None\<close>) where that is out of range.\<close>

definition shift :: "real list \<Rightarrow> int \<Rightarrow> real option list" where
  "shift xs n =
     map (\<lambda>i. let j = int i - n
               in if 0 \<le> j \<and> j < int (length xs) then Some (xs ! nat j) else None)
         [0..<length xs]"

record 't SimOut =
  out_rows :: "('t \<times> real \<times> real \<times> real \<times> real \<times> real) list"
  T_z_h1 :: "real option list"
  CO2_h1 :: "real option list"

definition run_simulation :: "'t DataFrame \<Rightarrow> Params \<Rightarrow> int \<Rightarrow> error + 't SimOut" where
  "run_simulation df_in p dt =
     (if ''T_set'' \<notin> set (columns df_in) then Inl (KeyError ''T_set'')
      else (case rows df_in of
        [] \<Rightarrow> Inl IndexError
      | (t0, vals0) # _ \<Rightarrow>
          (case row_series (columns df_in) vals0 ''T_set'' of
             None \<Rightarrow> Inl (KeyError ''T_set'')
           | Some T0 \<Rightarrow>
               (case run_simulation_loop [T0, T0, 600] 0 (iterrows df_in) p dt of
                  Inl e \<Rightarrow> Inl e
                | Inr rec \<Rightarrow>
                    if dt = 0 then Inl ZeroDivisionError
                    else
                      (let hor = int_of_float (3600 / real_of_int dt)
                       in Inr \<lparr> out_rows = rec,
                                T_z_h1 = shift (map (\<lambda>(t, a, b, c, d, e). a) rec) (- hor),
                                CO2_h1 = shift (map (\<lambda>(t, a, b, c, d, e). c) rec) (- hor) \<rparr>)))))"

section \<open>dashboard.py and run_live_hvac.py: the ingestion callbacks\<close>

text \<open>
  The callback receives what \<^verbatim>\<open>json.loads\<close> made of the payload: any JSON value as a Python
  object.
\<close>

datatype pyval =
    PNone
  | PBool bool
  | PInt int
  | PFloat real
  | PStr string
  | PList "pyval list"
  | PDict "string \<Rightarrow> pyval option"

text \<open>\<^verbatim>\<open>msg_dict[key]\<close> with a string key: KeyError on a dictionary without the key, TypeError
  on every value that is not a dictionary.\<close>

definition getitem :: "pyval \<Rightarrow> string \<Rightarrow> error + pyval" where
  "getitem d k =
     (case d of
        PDict m \<Rightarrow> (case m k of None \<Rightarrow> Inl (KeyError k) | Some v \<Rightarrow> Inr v)
      | _ \<Rightarrow> Inl TypeError)"

text \<open>
  A Python int has no bound. Converting it to a float, as \<^verbatim>\<open>float(i)\<close> does and as every
  arithmetic operation between an int and a float does first, raises OverflowError when the
  int does not round to a finite float64, that is from \<open>2^1024 - 2^970\<close> on in magnitude.
\<close>

definition float_overflow :: "int \<Rightarrow> bool" where
  "float_overflow i = (\<bar>i\<bar> \<ge> 2 ^ 1024 - 2 ^ 970)"

text \<open>
  The builtins \<^verbatim>\<open>float(v)\<close> and \<^verbatim>\<open>int(v)\<close>. Their parsers for strings are parameters
  (\<open>str_float\<close>, \<open>str_int\<close>: \<open>None\<close> where Python raises ValueError). A bool is a number in
  Python; None, lists and dictionaries raise TypeError.
\<close>

definition float_of :: "(string \<Rightarrow> real option) \<Rightarrow> pyval \<Rightarrow> error + real" where
  "float_of str_float v =
     (case v of
        PNone \<Rightarrow> Inl TypeError
      | PBool b \<Rightarrow> Inr (if b then 1 else 0)
      | PInt i \<Rightarrow> if float_overflow i then Inl OverflowError else Inr (real_of_int i)
      | PFloat r \<Rightarrow> Inr r
      | PStr s \<Rightarrow> (case str_float s of None \<Rightarrow> Inl ValueError | Some r \<Rightarrow> Inr r)
      | PList _ \<Rightarrow> Inl TypeError
      | PDict _ \<Rightarrow> Inl TypeError)"

definition int_of :: "(string \<Rightarrow> int option) \<Rightarrow> pyval \<Rightarrow> error + int" where
  "int_of str_int v =
     (case v of
        PNone \<Rightarrow> Inl TypeError
      | PBool b \<Rightarrow> Inr (if b then 1 else 0)
      | PInt i \<Rightarrow> Inr i
      | PFloat r \<Rightarrow> Inr (int_of_float r)
      | PStr s \<Rightarrow> (case str_int s of None \<Rightarrow> Inl ValueError | Some i \<Rightarrow> Inr i)
      | PList _ \<Rightarrow> Inl TypeError
      | PDict _ \<Rightarrow> Inl TypeError)"

text \<open>\<^verbatim>\<open>float(msg_dict.get("I_sol", 0.0))\<close>, reached only after \<^verbatim>\<open>msg_dict[...]\<close> has succeeded,
  that is on a dictionary.\<close>

definition get_I_sol :: "(string \<Rightarrow> real option) \<Rightarrow> pyval \<Rightarrow> error + real" where
  "get_I_sol str_float d =
     (case d of
        PDict m \<Rightarrow> float_of str_float (case m ''I_sol'' of None \<Rightarrow> PFloat 0 | Some v \<Rightarrow> v)
      | _ \<Rightarrow> Inl TypeError)"

text \<open>\<^verbatim>\<open>collections.deque(maxlen=n).append(x)\<close>: add on the right, then drop from the left when
  the length exceeds \<open>n\<close>. It never raises.\<close>

definition deque_append :: "nat \<Rightarrow> 'a list \<Rightarrow> 'a \<Rightarrow> 'a list" where
  "deque_append maxlen d x =
     (let d' = d @ [x] in if length d' > maxlen then tl d' else d')"

definition data_deque_maxlen :: nat where
  "data_deque_maxlen = 288"

text \<open>The dictionary stored in the deque: the result of \<^verbatim>\<open>step\<close> with three more keys.\<close>

record 'ts HistoryEntry = StepResult +
  timestamp :: 'ts
  N_occ :: int
  T_set :: real

text \<open>The module globals of dashboard.py that the callback reads and writes.\<close>

record 'ts Dashboard =
  hvac_sim :: HVACSimulator
  data_deque :: "'ts HistoryEntry list"

text \<open>The dictionary \<^verbatim>\<open>inputs\<close> that both callbacks build.\<close>

definition mk_inputs :: "real \<Rightarrow> int \<Rightarrow> real \<Rightarrow> real \<Rightarrow> inputs" where
  "mk_inputs Tout n Tset Isol =
     [''T_out'' \<mapsto> Tout, ''N_occ'' \<mapsto> real_of_int n, ''T_set'' \<mapsto> Tset, ''I_sol'' \<mapsto> Isol]"

text \<open>
  \<^verbatim>\<open>hvac_sim.step(inputs)\<close> as both callbacks call it: \<^verbatim>\<open>N_occ\<close> is a Python int in the
  dictionary, the other values are floats. \<^verbatim>\<open>rhs\<close> unpacks the state and reads the keys
  first; then \<^verbatim>\<open>100.0 * N_occ\<close> (physics.py line 40) converts the int to a float, and raises
  OverflowError when it is out of the float range. Nothing has been written by then.
\<close>

definition step_from_callback ::
  "HVACSimulator \<Rightarrow> real \<Rightarrow> int \<Rightarrow> real \<Rightarrow> real \<Rightarrow> error + (HVACSimulator \<times> StepResult)" where
  "step_from_callback sim Tout n_occ Tset Isol =
     (case step sim (mk_inputs Tout n_occ Tset Isol) of
        Inl e \<Rightarrow> Inl e
      | Inr r \<Rightarrow> if float_overflow n_occ then Inl OverflowError else Inr r)"

text \<open>Statements in sequence: the first exception ends the sequence.\<close>

definition and_then :: "error + 'a \<Rightarrow> ('a \<Rightarrow> error + 'b) \<Rightarrow> error + 'b" where
  "and_then m f = (case m of Inl e \<Rightarrow> Inl e | Inr x \<Rightarrow> f x)"

text \<open>
  The conversions at the head of the \<^verbatim>\<open>try\<close> block of dashboard.py, in the order Python
  evaluates them: \<^verbatim>\<open>n_occ\<close> first, then the values of the dictionary literal. None of them
  writes anything.
\<close>

definition dashboard_inputs ::
  "(string \<Rightarrow> real option) \<Rightarrow> (string \<Rightarrow> int option) \<Rightarrow> pyval \<Rightarrow>
     error + (int \<times> real \<times> real \<times> real)" where
  "dashboard_inputs str_float str_int msg_dict =
     and_then (getitem msg_dict ''N_occ'') (\<lambda>v1.
     and_then (int_of str_int v1) (\<lambda>n_occ.
     and_then (getitem msg_dict ''T_out'') (\<lambda>v2.
     and_then (float_of str_float v2) (\<lambda>Tout.
     and_then (getitem msg_dict ''T_set'') (\<lambda>v3.
     and_then (float_of str_float v3) (\<lambda>Tset.
     and_then (get_I_sol str_float msg_dict) (\<lambda>Isol.
     Inr (n_occ, Tout, Tset, Isol))))))))"

text \<open>
  The body of the \<^verbatim>\<open>try\<close> block of dashboard.py, statement by statement. The result is the
  globals as the body leaves them, and the exception that ended it if there is one. \<open>now\<close>
  is the clock reading \<^verbatim>\<open>pd.to_datetime('now')\<close>. After the step the body converts
  \<^verbatim>\<open>msg_dict["T_set"]\<close> a second time.
\<close>

definition try_body ::
  "(string \<Rightarrow> real option) \<Rightarrow> (string \<Rightarrow> int option) \<Rightarrow>
     'ts Dashboard \<Rightarrow> pyval \<Rightarrow> 'ts \<Rightarrow> 'ts Dashboard \<times> error option" where
  "try_body str_float str_int g msg_dict now =
     (case dashboard_inputs str_float str_int msg_dict of
        Inl e \<Rightarrow> (g, Some e)
      | Inr (n_occ, Tout, Tset, Isol) \<Rightarrow>
          (case step_from_callback (hvac_sim g) Tout n_occ Tset Isol of
             Inl e \<Rightarrow> (g, Some e)
           | Inr (sim', results) \<Rightarrow>
               (let g1 = g \<lparr> hvac_sim := sim' \<rparr>
                in (case and_then (getitem msg_dict ''T_set'') (float_of str_float) of
                      Inl e \<Rightarrow> (g1, Some e)
                    | Inr Tset' \<Rightarrow>
                        (let entry = StepResult.extend results
                                       (HistoryEntry.fields now n_occ Tset')
                         in (g1 \<lparr> data_deque :=
                                    deque_append data_deque_maxlen (data_deque g1) entry \<rparr>,
                             None))))))"

text \<open>\<^verbatim>\<open>except (KeyError, ValueError)\<close>: these two are caught and printed; every other
  exception leaves the callback.\<close>

definition caught :: "error \<Rightarrow> bool" where
  "caught e = (case e of KeyError _ \<Rightarrow> True | ValueError \<Rightarrow> True | _ \<Rightarrow> False)"

text \<open>The callback returns the globals as it leaves them and the exception that escapes it,
  if one does.\<close>

definition on_sensor_data_received ::
  "(string \<Rightarrow> real option) \<Rightarrow> (string \<Rightarrow> int option) \<Rightarrow>
     'ts Dashboard \<Rightarrow> pyval \<Rightarrow> 'ts \<Rightarrow> 'ts Dashboard \<times> error option" where
  "on_sensor_data_received str_float str_int g msg_dict now =
     (case try_body str_float str_int g msg_dict now of
        (g', None) \<Rightarrow> (g', None)
      | (g', Some e) \<Rightarrow> if caught e then (g', None) else (g', Some e))"

text \<open>The callback of run_live_hvac.py: the same conversions in the order of its dictionary
  literal, a step, and printing. Its only global is the simulator.\<close>

definition live_inputs ::
  "(string \<Rightarrow> real option) \<Rightarrow> (string \<Rightarrow> int option) \<Rightarrow> pyval \<Rightarrow>
     error + (int \<times> real \<times> real \<times> real)" where
  "live_inputs str_float str_int msg_dict =
     and_then (getitem msg_dict ''T_out'') (\<lambda>v1.
     and_then (float_of str_float v1) (\<lambda>Tout.
     and_then (getitem msg_dict ''N_occ'') (\<lambda>v2.
     and_then (int_of str_int v2) (\<lambda>n_occ.
     and_then (getitem msg_dict ''T_set'') (\<lambda>v3.
     and_then (float_of str_float v3) (\<lambda>Tset.
     and_then (get_I_sol str_float msg_dict) (\<lambda>Isol.
     Inr (n_occ, Tout, Tset, Isol))))))))"

definition try_body_live ::
  "(string \<Rightarrow> real option) \<Rightarrow> (string \<Rightarrow> int option) \<Rightarrow>
     HVACSimulator \<Rightarrow> pyval \<Rightarrow> HVACSimulator \<times> error option" where
  "try_body_live str_float str_int sim msg_dict =
     (case live_inputs str_float str_int msg_dict of
        Inl e \<Rightarrow> (sim, Some e)
      | Inr (n_occ, Tout, Tset, Isol) \<Rightarrow>
          (case step_from_callback sim Tout n_occ Tset Isol of
             Inl e \<Rightarrow> (sim, Some e)
           | Inr (sim', results) \<Rightarrow> (sim', None)))"

definition on_sensor_data_received_live ::
  "(string \<Rightarrow> real option) \<Rightarrow> (string \<Rightarrow> int option) \<Rightarrow>
     HVACSimulator \<Rightarrow> pyval \<Rightarrow> HVACSimulator \<times> error option" where
  "on_sensor_data_received_live str_float str_int sim msg_dict =
     (case try_body_live str_float str_int sim msg_dict of
        (sim', None) \<Rightarrow> (sim', None)
      | (sim', Some e) \<Rightarrow> if caught e then (sim', None) else (sim', Some e))"

section \<open>Basic facts about the physics model\<close>

lemma rhs_Inr_iff:
  "rhs st inp p = Inr d \<longleftrightarrow>
     (\<exists>Tz Tw CO2 Tout Nocc Tset.
        st = [Tz, Tw, CO2] \<and> inp ''T_out'' = Some Tout \<and> inp ''N_occ'' = Some Nocc \<and>
        inp ''T_set'' = Some Tset \<and>
        d = [zone_balance Tout Tz Tw
               (case inp ''Q_int'' of None \<Rightarrow> 100 * Nocc | Some v \<Rightarrow> v)
               (fst (hvac_power Tz Tset p)) p,
             ((Tz - Tw) / R_wz p + (Tout - Tw) / R_ow p +
               (case inp ''I_sol'' of None \<Rightarrow> 0 | Some v \<Rightarrow> v) / 1000) / C_w_kW p,
             (ACH p * V p / 3600 * (400 - CO2) + E_occ p * Nocc / 1000 * 1000000) / V p,
             snd (hvac_power Tz Tset p)])"
  by (auto simp: rhs_def Let_def split: list.splits option.splits prod.splits)

lemma rhs_isl:
  "isl (rhs st inp p) =
     (length st \<noteq> 3 \<or> inp ''T_out'' = None \<or> inp ''N_occ'' = None \<or> inp ''T_set'' = None)"
proof (cases "\<exists>a b c. st = [a, b, c]")
  case True
  then show ?thesis
    by (auto simp: rhs_def Let_def split: option.splits prod.splits)
next
  case False
  then have "length st \<noteq> 3"
    by (auto simp: length_Suc_conv numeral_3_eq_3)
  moreover have "rhs st inp p = Inl ValueError"
    using False by (auto simp: rhs_def split: list.splits)
  ultimately show ?thesis by simp
qed

lemma hvac_power_fst: "fst (hvac_power Tz Tset p) = m_air_des p * c_p p * (Tz - Tset)"
  by (simp add: hvac_power_def Let_def)

lemma hvac_power_heating:
  "Tz < Tset \<Longrightarrow> hvac_power Tz Tset p =
     (m_air_des p * c_p p * (Tz - Tset), \<bar>m_air_des p * c_p p * (Tz - Tset)\<bar> / COP p + P_fan_des p)"
  by (simp add: hvac_power_def Let_def)

lemma hvac_power_nonneg:
  assumes "0 < m_air_des p" "0 < c_p p" "0 < COP p" "0 < P_fan_des p"
  shows "0 \<le> snd (hvac_power Tz Tset p)"
proof -
  have "0 \<le> \<bar>m_air_des p * c_p p * (Tz - Tset)\<bar> / COP p" using assms by simp
  moreover have "Tz - Tset > 0 \<Longrightarrow> 0 \<le> m_air_des p * c_p p * (Tz - Tset) / COP p"
    using assms by simp
  ultimately show ?thesis using assms by (simp add: hvac_power_def Let_def)
qed

section \<open>Basic facts about the integrator\<close>

lemma step_Inr:
  assumes "rhs (state sim) inp (params sim) = Inr d"
  shows "step sim inp =
           Inr (sim \<lparr> state := map2 (\<lambda>s d. s + d * real_of_int (dt_s sim)) (state sim) (take 3 d),
                      cumulative_energy_kwh :=
                        cumulative_energy_kwh sim + d ! 3 * real_of_int (dt_s sim) / 3600 \<rparr>,
                \<lparr> T_z = map2 (\<lambda>s d. s + d * real_of_int (dt_s sim)) (state sim) (take 3 d) ! 0,
                  T_w = map2 (\<lambda>s d. s + d * real_of_int (dt_s sim)) (state sim) (take 3 d) ! 1,
                  CO2_z = map2 (\<lambda>s d. s + d * real_of_int (dt_s sim)) (state sim) (take 3 d) ! 2,
                  P_e = d ! 3,
                  E_KWh_cumulative =
                    cumulative_energy_kwh sim + d ! 3 * real_of_int (dt_s sim) / 3600 \<rparr>)"
  using assms by (simp add: step_def Let_def)

lemma step_Inl:
  "rhs (state sim) inp (params sim) = Inl e \<Longrightarrow> step sim inp = Inl e"
  by (simp add: step_def)

lemma step_isl: "isl (step sim inp) = isl (rhs (state sim) inp (params sim))"
  by (cases "rhs (state sim) inp (params sim)") (simp_all add: step_def Let_def)

lemma step_Inr_rhs:
  assumes "step sim inp = Inr (sim', r)"
  shows "\<exists>d. rhs (state sim) inp (params sim) = Inr d"
  using assms by (cases "rhs (state sim) inp (params sim)") (simp_all add: step_def)

lemma rhs_shape:
  assumes "rhs st inp p = Inr d"
  shows "length st = 3 \<and> length d = 4"
  using assms by (auto simp: rhs_Inr_iff)

lemma rhs_power:
  assumes "rhs st inp p = Inr d"
  shows "\<exists>Tz Tset. d ! 3 = snd (hvac_power Tz Tset p)"
proof -
  from assms obtain Tz Tset x y z where "d = [x, y, z, snd (hvac_power Tz Tset p)]"
    unfolding rhs_Inr_iff by blast
  then have "d ! 3 = snd (hvac_power Tz Tset p)" by simp
  then show ?thesis by blast
qed

lemma step_energy:
  assumes pos: "0 < m_air_des (params sim)" "0 < c_p (params sim)" "0 < COP (params sim)"
               "0 < P_fan_des (params sim)"
    and dt: "0 \<le> dt_s sim"
    and st: "step sim inp = Inr (sim', r)"
  shows "0 \<le> P_e r \<and> cumulative_energy_kwh sim \<le> cumulative_energy_kwh sim' \<and>
         E_KWh_cumulative r = cumulative_energy_kwh sim' \<and>
         params sim' = params sim \<and> dt_s sim' = dt_s sim"
proof -
  obtain d where d: "rhs (state sim) inp (params sim) = Inr d"
    using step_Inr_rhs [OF st] by blast
  obtain Tz Tset where p: "d ! 3 = snd (hvac_power Tz Tset (params sim))"
    using rhs_power [OF d] by blast
  have nn: "0 \<le> d ! 3" using hvac_power_nonneg [OF pos] p by simp
  have "0 \<le> d ! 3 * real_of_int (dt_s sim) / 3600" using nn dt by simp
  then show ?thesis using st nn by (auto simp: step_Inr [OF d])
qed

lemma steps_energy:
  assumes "0 < m_air_des (params sim)" "0 < c_p (params sim)" "0 < COP (params sim)"
          "0 < P_fan_des (params sim)" "0 \<le> dt_s sim"
    and "steps sim ins = Inr (sim', rs)"
  shows "(\<forall>r \<in> set rs. 0 \<le> P_e r) \<and>
         sorted (cumulative_energy_kwh sim # map E_KWh_cumulative rs) \<and>
         cumulative_energy_kwh sim' = last (cumulative_energy_kwh sim # map E_KWh_cumulative rs)"
  using assms
proof (induction ins arbitrary: sim rs)
  case Nil
  then show ?case by simp
next
  case (Cons inp rest)
  from Cons.prems(6) obtain sim1 r rs1 where
    s1: "step sim inp = Inr (sim1, r)" and s2: "steps sim1 rest = Inr (sim', rs1)"
    and rs: "rs = r # rs1"
    by (auto split: sum.splits prod.splits)
  have e: "0 \<le> P_e r \<and> cumulative_energy_kwh sim \<le> cumulative_energy_kwh sim1 \<and>
         E_KWh_cumulative r = cumulative_energy_kwh sim1 \<and>
         params sim1 = params sim \<and> dt_s sim1 = dt_s sim"
    using step_energy [OF Cons.prems(1-5) s1] .
  have ih: "(\<forall>r \<in> set rs1. 0 \<le> P_e r) \<and>
         sorted (cumulative_energy_kwh sim1 # map E_KWh_cumulative rs1) \<and>
         cumulative_energy_kwh sim' = last (cumulative_energy_kwh sim1 # map E_KWh_cumulative rs1)"
    using Cons.IH [of sim1 rs1] Cons.prems(1-5) e s2 by simp
  show ?case using e ih rs by auto
qed

lemma step_co2:
  assumes V: "0 < V (params sim)"
    and st: "state sim = [Tz, Tw, C]"
    and n: "inp ''N_occ'' = Some 0"
    and k: "inp ''T_out'' \<noteq> None" "inp ''T_set'' \<noteq> None"
  shows "\<exists>sim' r. step sim inp = Inr (sim', r) \<and>
           CO2_z r - 400 = (C - 400) * (1 - ACH (params sim) * real_of_int (dt_s sim) / 3600) \<and>
           (\<exists>Tz' Tw'. state sim' = [Tz', Tw', CO2_z r]) \<and>
           params sim' = params sim \<and> dt_s sim' = dt_s sim"
proof -
  obtain Tout Tset where k': "inp ''T_out'' = Some Tout" "inp ''T_set'' = Some Tset"
    using k by auto
  define q where "q = (ACH (params sim) * V (params sim) / 3600 * (400 - C) +
                  E_occ (params sim) * 0 / 1000 * 1000000) / V (params sim)"
  obtain x y z where r: "rhs (state sim) inp (params sim) = Inr [x, y, q, z]"
    using st n k' by (simp add: rhs_Inr_iff q_def)
  have q: "q = ACH (params sim) / 3600 * (400 - C)"
    unfolding q_def using V by simp
  have "C + q * real_of_int (dt_s sim) - 400
          = (C - 400) * (1 - ACH (params sim) * real_of_int (dt_s sim) / 3600)"
    unfolding q by (simp add: field_simps)
  then show ?thesis by (simp add: step_Inr [OF r] st)
qed

lemma co2_contract:
  fixes a c :: real
  assumes "0 \<le> a" "a \<le> 1" "c' - 400 = (c - 400) * (1 - a)"
  shows "\<bar>c' - 400\<bar> \<le> \<bar>c - 400\<bar> \<and> (400 \<le> c \<longrightarrow> 400 \<le> c')"
proof -
  have b: "0 \<le> 1 - a" "1 - a \<le> 1" using assms by simp_all
  have "\<bar>c' - 400\<bar> = \<bar>c - 400\<bar> * (1 - a)"
    using assms(3) b by (simp add: abs_mult)
  also have "\<dots> \<le> \<bar>c - 400\<bar> * 1"
    using b by (intro mult_left_mono) simp_all
  finally have 1: "\<bar>c' - 400\<bar> \<le> \<bar>c - 400\<bar>" by simp
  have 2: "400 \<le> c'" if "400 \<le> c"
  proof -
    have "0 \<le> (c - 400) * (1 - a)" using that b by simp
    then show ?thesis using assms(3) by simp
  qed
  show ?thesis using 1 2 by blast
qed

lemma steps_co2:
  assumes "0 < V (params sim)" "0 \<le> ACH (params sim) * real_of_int (dt_s sim) / 3600"
    "ACH (params sim) * real_of_int (dt_s sim) / 3600 \<le> 1"
    and "state sim = [Tz, Tw, C]"
    and "\<forall>inp \<in> set ins. inp ''N_occ'' = Some 0 \<and> inp ''T_out'' \<noteq> None \<and> inp ''T_set'' \<noteq> None"
  shows "\<exists>sim' rs. steps sim ins = Inr (sim', rs) \<and> length rs = length ins \<and>
           sorted_wrt (\<lambda>c c'. \<bar>c' - 400\<bar> \<le> \<bar>c - 400\<bar>) (C # map CO2_z rs) \<and>
           (400 \<le> C \<longrightarrow> (\<forall>r \<in> set rs. 400 \<le> CO2_z r))"
  using assms
proof (induction ins arbitrary: sim Tz Tw C)
  case Nil
  then show ?case by simp
next
  case (Cons inp rest)
  have i: "inp ''N_occ'' = Some 0" "inp ''T_out'' \<noteq> None" "inp ''T_set'' \<noteq> None"
    using Cons.prems(5) by simp_all
  obtain sim1 r Tz1 Tw1 where
    s1: "step sim inp = Inr (sim1, r)"
    and c: "CO2_z r - 400 = (C - 400) * (1 - ACH (params sim) * real_of_int (dt_s sim) / 3600)"
    and st1: "state sim1 = [Tz1, Tw1, CO2_z r]"
    and same: "params sim1 = params sim" "dt_s sim1 = dt_s sim"
    using step_co2 [OF Cons.prems(1) Cons.prems(4) i] by blast
  have cc: "\<bar>CO2_z r - 400\<bar> \<le> \<bar>C - 400\<bar> \<and> (400 \<le> C \<longrightarrow> 400 \<le> CO2_z r)"
    using co2_contract [OF Cons.prems(2,3) c] .
  obtain sim' rs where
    s2: "steps sim1 rest = Inr (sim', rs)" and len: "length rs = length rest"
    and srt: "sorted_wrt (\<lambda>c c'. \<bar>c' - 400\<bar> \<le> \<bar>c - 400\<bar>) (CO2_z r # map CO2_z rs)"
    and ge: "400 \<le> CO2_z r \<longrightarrow> (\<forall>r \<in> set rs. 400 \<le> CO2_z r)"
    using Cons.IH [of sim1 Tz1 Tw1 "CO2_z r"] Cons.prems(1,2,3,5) st1 same by auto
  have all: "\<forall>x \<in> set (CO2_z r # map CO2_z rs). \<bar>x - 400\<bar> \<le> \<bar>C - 400\<bar>"
  proof
    fix x assume x: "x \<in> set (CO2_z r # map CO2_z rs)"
    have "\<bar>x - 400\<bar> \<le> \<bar>CO2_z r - 400\<bar>"
      using x srt by auto
    then show "\<bar>x - 400\<bar> \<le> \<bar>C - 400\<bar>" using cc by linarith
  qed
  have "steps sim (inp # rest) = Inr (sim', r # rs)" using s1 s2 by simp
  moreover have "length (r # rs) = length (inp # rest)" using len by simp
  moreover have "sorted_wrt (\<lambda>c c'. \<bar>c' - 400\<bar> \<le> \<bar>c - 400\<bar>) (C # map CO2_z (r # rs))"
    using srt all by simp
  moreover have "400 \<le> C \<longrightarrow> (\<forall>r \<in> set (r # rs). 400 \<le> CO2_z r)"
    using cc ge by auto
  ultimately show ?case by blast
qed

section \<open>The batch loop and the stateful integrator\<close>

lemma loop_eq_steps:
  "map_sum id (map snd)
       (run_simulation_loop (state sim) (cumulative_energy_kwh sim) rws (params sim) (dt_s sim))
   = map_sum id (\<lambda>(s, rs). map (\<lambda>r. (T_z r, T_w r, CO2_z r, P_e r, E_KWh_cumulative r)) rs)
       (steps sim (map snd rws))"
proof (induction rws arbitrary: sim)
  case Nil
  then show ?case by simp
next
  case (Cons tr rest)
  obtain t row where tr: "tr = (t, row)" by (cases tr)
  show ?case
  proof (cases "rhs (state sim) row (params sim)")
    case (Inl e)
    then show ?thesis by (simp add: tr step_Inl)
  next
    case (Inr d)
    have len: "length (state sim) = 3" using rhs_shape [OF Inr] by simp
    define sim1 where "sim1 = sim \<lparr> state := map2 (\<lambda>s d. s + d * real_of_int (dt_s sim)) (state sim) (take 3 d),
                      cumulative_energy_kwh :=
                        cumulative_energy_kwh sim + d ! 3 * real_of_int (dt_s sim) / 3600 \<rparr>"
    have ih: "map_sum id (map snd)
       (run_simulation_loop (state sim1) (cumulative_energy_kwh sim1) rest (params sim1) (dt_s sim1))
      = map_sum id (\<lambda>(s, rs). map (\<lambda>r. (T_z r, T_w r, CO2_z r, P_e r, E_KWh_cumulative r)) rs)
       (steps sim1 (map snd rest))"
      by (rule Cons.IH)
    show ?thesis
      using ih len
      by (auto simp: tr Inr step_Inr [OF Inr] sim1_def Let_def split: sum.splits prod.splits)
  qed
qed

text \<open>The whole of \<^verbatim>\<open>run_simulation\<close>: when it returns, its rows are those of the loop started
  at \<open>[T0, T0, 600]\<close> with \<open>T0\<close> the first setpoint, and so those of the stateful engine.\<close>

lemma run_simulation_rows:
  assumes "run_simulation df p dt = Inr out"
  shows "\<exists>t0 vals0 rest T0.
           rows df = (t0, vals0) # rest \<and>
           row_series (columns df) vals0 ''T_set'' = Some T0 \<and> dt \<noteq> 0 \<and>
           run_simulation_loop [T0, T0, 600] 0 (iterrows df) p dt = Inr (out_rows out) \<and>
           map_sum id (\<lambda>(s, rs). map (\<lambda>r. (T_z r, T_w r, CO2_z r, P_e r, E_KWh_cumulative r)) rs)
             (steps (HVACSimulator_init [T0, T0, 600] p dt) (map snd (iterrows df)))
           = Inr (map snd (out_rows out))"
proof -
  from assms obtain t0 vals0 rest T0 rec where
    r: "rows df = (t0, vals0) # rest"
    and T0: "row_series (columns df) vals0 ''T_set'' = Some T0"
    and lp: "run_simulation_loop [T0, T0, 600] 0 (iterrows df) p dt = Inr rec"
    and dt: "dt \<noteq> 0" and out: "out_rows out = rec"
    by (auto simp: run_simulation_def Let_def
             split: if_splits list.splits option.splits sum.splits prod.splits)
  have "map_sum id (map snd) (run_simulation_loop [T0, T0, 600] 0 (iterrows df) p dt)
        = Inr (map snd (out_rows out))"
    using lp out by simp
  then show ?thesis using r T0 lp dt out loop_eq_steps [of "HVACSimulator_init [T0, T0, 600] p dt" "iterrows df"]
    by (simp add: HVACSimulator_init_def)
qed

lemma int_of_float_examples:
  "int_of_float (3600 / real_of_int 300) = 12" "int_of_float (3600 / real_of_int 7000) = 0"
  "int_of_float (- 5 / 2) = - 2"
  by (simp_all add: int_of_float_def)

lemma shift_example: "shift [1, 2, 3] (- 1) = [Some 2, Some 3, None]"
  by (simp add: shift_def upt_rec)

section \<open>The bounded deque\<close>

lemma deque_append_drop:
  "deque_append n (drop (length rs - n) rs) x = drop (length (rs @ [x]) - n) (rs @ [x])"
proof (cases "length rs < n")
  case True
  then show ?thesis by (simp add: deque_append_def)
next
  case False
  then have ge: "n \<le> length rs" by simp
  have "drop (length rs - n) rs @ [x] = drop (length rs - n) (rs @ [x])"
    by simp
  then have "tl (drop (length rs - n) rs @ [x]) = drop (Suc (length rs - n)) (rs @ [x])"
    by (simp only: tl_drop drop_Suc)
  moreover have "Suc (length rs - n) = Suc (length rs) - n" using ge by simp
  ultimately show ?thesis using ge by (simp add: deque_append_def Let_def)
qed

lemma deque_history:
  "foldl (deque_append n) [] rs = drop (length rs - n) rs"
proof (induction rs rule: rev_induct)
  case Nil
  then show ?case by simp
next
  case (snoc x xs)
  then show ?case using deque_append_drop [of n xs x] by simp
qed

section \<open>The ingestion callback of dashboard.py\<close>

text \<open>
  The second conversion of \<^verbatim>\<open>msg_dict["T_set"]\<close>, after the step, cannot fail: the first
  one succeeded on the same dictionary. So the callback either leaves the globals as they
  were, or completes the step and the append.
\<close>

lemma T_set_again:
  assumes "dashboard_inputs sf si msg = Inr (n, Tout, Tset, Isol)"
  shows "and_then (getitem msg ''T_set'') (float_of sf) = Inr Tset"
  using assms
  by (auto simp: dashboard_inputs_def and_then_def split: sum.splits)

lemma callback_rejects_before_step:
  assumes "dashboard_inputs sf si msg = Inl e"
  shows "on_sensor_data_received sf si g msg now = (g, if caught e then None else Some e)"
  using assms by (simp add: on_sensor_data_received_def try_body_def)

lemma callback_step_raises:
  assumes "dashboard_inputs sf si msg = Inr (n, Tout, Tset, Isol)"
    and "step_from_callback (hvac_sim g) Tout n Tset Isol = Inl e"
  shows "on_sensor_data_received sf si g msg now = (g, if caught e then None else Some e)"
  using assms by (simp add: on_sensor_data_received_def try_body_def)

lemma callback_completes:
  assumes "dashboard_inputs sf si msg = Inr (n, Tout, Tset, Isol)"
    and "step_from_callback (hvac_sim g) Tout n Tset Isol = Inr (sim', res)"
  shows "on_sensor_data_received sf si g msg now =
           (g \<lparr> hvac_sim := sim',
                data_deque := deque_append data_deque_maxlen (data_deque g)
                                (StepResult.extend res (HistoryEntry.fields now n Tset)) \<rparr>,
            None)"
  using assms T_set_again [OF assms(1)]
  by (simp add: on_sensor_data_received_def try_body_def Let_def)

lemma callback_all_or_nothing:
  "fst (on_sensor_data_received sf si g msg now) = g \<or>
   (\<exists>n Tout Tset Isol sim' res.
      dashboard_inputs sf si msg = Inr (n, Tout, Tset, Isol) \<and>
      step_from_callback (hvac_sim g) Tout n Tset Isol = Inr (sim', res) \<and>
      on_sensor_data_received sf si g msg now =
        (g \<lparr> hvac_sim := sim',
             data_deque := deque_append data_deque_maxlen (data_deque g)
                             (StepResult.extend res (HistoryEntry.fields now n Tset)) \<rparr>,
         None))"
proof (cases "dashboard_inputs sf si msg")
  case (Inl e)
  then show ?thesis by (simp add: callback_rejects_before_step)
next
  case (Inr q)
  obtain n Tout Tset Isol where q: "q = (n, Tout, Tset, Isol)" by (cases q)
  have eq1: "dashboard_inputs sf si msg = Inr (n, Tout, Tset, Isol)" using Inr q by simp
  show ?thesis
  proof (cases "step_from_callback (hvac_sim g) Tout n Tset Isol")
    case (Inl e)
    then show ?thesis using eq1 by (simp add: callback_step_raises)
  next
    case (Inr sr)
    obtain sim' res where sr: "sr = (sim', res)" by (cases sr)
    have eq2: "step_from_callback (hvac_sim g) Tout n Tset Isol = Inr (sim', res)"
      using Inr sr by simp
    show ?thesis using eq1 eq2 callback_completes [OF eq1 eq2] by blast
  qed
qed

lemma missing_key_rejected:
  assumes "m ''N_occ'' = None"
  shows "on_sensor_data_received sf si g (PDict m) now = (g, None)"
  using assms
  by (simp add: callback_rejects_before_step dashboard_inputs_def and_then_def getitem_def caught_def)

text \<open>An int \<^verbatim>\<open>N_occ\<close> beyond the float range passes \<^verbatim>\<open>int()\<close> and fails in \<^verbatim>\<open>rhs\<close>, with an
  exception that the callback does not catch either.\<close>

lemma huge_N_occ_escapes_callback:
  assumes "length (state (hvac_sim g)) = 3"
  shows "on_sensor_data_received sf si g
           (PDict [''T_out'' \<mapsto> PFloat 25, ''N_occ'' \<mapsto> PInt (2 ^ 1024), ''T_set'' \<mapsto> PFloat 24]) now
         = (g, Some OverflowError)"
proof -
  have i: "dashboard_inputs sf si
             (PDict [''T_out'' \<mapsto> PFloat 25, ''N_occ'' \<mapsto> PInt (2 ^ 1024), ''T_set'' \<mapsto> PFloat 24])
           = Inr (2 ^ 1024, 25, 24, 0)"
    by (simp add: dashboard_inputs_def and_then_def getitem_def int_of_def float_of_def
        get_I_sol_def)
  have "\<not> isl (step (hvac_sim g) (mk_inputs 25 (2 ^ 1024) 24 0))"
    using assms by (simp add: step_isl rhs_isl mk_inputs_def)
  then have e: "step_from_callback (hvac_sim g) 25 (2 ^ 1024) 24 0 = Inl OverflowError"
    by (auto simp: step_from_callback_def float_overflow_def split: sum.splits)
  show ?thesis
    by (simp only: callback_step_raises [OF i e]) (simp add: caught_def)
qed

section \<open>The claims\<close>

text \<open>
  Claim C1. For positive air mass flow, specific heat and zone capacitance, and an input with
  its required keys, \<^verbatim>\<open>rhs\<close> returns, and its zone derivative is the balance without HVAC plus
  the contribution \<open>- Q_HVAC / C_z\<close> of the HVAC heat term. That contribution is strictly
  negative when the zone is warmer than the setpoint and strictly positive when it is colder:
  the HVAC term always pushes the zone temperature toward the setpoint.
\<close>

theorem hvac_term_drives_toward_setpoint:
  assumes "0 < m_air_des p" "0 < c_p p" "0 < C_z p"
    and "inp ''T_out'' = Some Tout" "inp ''N_occ'' = Some Nocc" "inp ''T_set'' = Some Tset"
  shows "\<exists>dTz dTw dCO2 Pe.
           rhs [Tz, Tw, CO2] inp p = Inr [dTz, dTw, dCO2, Pe] \<and>
           dTz = zone_balance Tout Tz Tw
                   (case inp ''Q_int'' of None \<Rightarrow> 100 * Nocc | Some v \<Rightarrow> v) 0 p
                 + (- fst (hvac_power Tz Tset p)) / C_z_kW p \<and>
           (Tset < Tz \<longrightarrow> (- fst (hvac_power Tz Tset p)) / C_z_kW p < 0) \<and>
           (Tz < Tset \<longrightarrow> 0 < (- fst (hvac_power Tz Tset p)) / C_z_kW p)"
proof -
  let ?Q = "fst (hvac_power Tz Tset p)"
  let ?Qint = "case inp ''Q_int'' of None \<Rightarrow> 100 * Nocc | Some v \<Rightarrow> v"
  have pos: "0 < m_air_des p * c_p p" using assms(1,2) by simp
  have r: "rhs [Tz, Tw, CO2] inp p = Inr [zone_balance Tout Tz Tw ?Qint ?Q p,
             ((Tz - Tw) / R_wz p + (Tout - Tw) / R_ow p +
               (case inp ''I_sol'' of None \<Rightarrow> 0 | Some v \<Rightarrow> v) / 1000) / C_w_kW p,
             (ACH p * V p / 3600 * (400 - CO2) + E_occ p * Nocc / 1000 * 1000000) / V p,
             snd (hvac_power Tz Tset p)]"
    using assms(4-6) by (simp add: rhs_Inr_iff)
  have split: "zone_balance Tout Tz Tw ?Qint ?Q p
                 = zone_balance Tout Tz Tw ?Qint 0 p + (- ?Q) / C_z_kW p"
    by (simp add: zone_balance_def diff_divide_distrib)
  have neg: "(- ?Q) / C_z_kW p < 0" if "Tset < Tz"
  proof -
    have "0 < m_air_des p * c_p p * (Tz - Tset)" using pos that by simp
    then have "0 < m_air_des p * c_p p * (Tz - Tset) / C_z p"
      using assms(3) by (rule divide_pos_pos)
    then show ?thesis by (simp add: hvac_power_fst C_z_kW_def)
  qed
  have posi: "0 < (- ?Q) / C_z_kW p" if "Tz < Tset"
  proof -
    have "m_air_des p * c_p p * (Tz - Tset) < 0"
      using pos that by (simp add: mult_pos_neg)
    then have "m_air_des p * c_p p * (Tz - Tset) / C_z p < 0"
      using assms(3) by (rule divide_neg_pos)
    then show ?thesis by (simp add: hvac_power_fst C_z_kW_def)
  qed
  show ?thesis using r split neg posi by blast
qed

theorem hvac_term_drives_toward_setpoint_witness:
  "\<exists>dTz dTw dCO2 Pe.
      rhs [18, 19, 600] [''T_out'' \<mapsto> 25, ''N_occ'' \<mapsto> 5, ''T_set'' \<mapsto> 24] default_Params
        = Inr [dTz, dTw, dCO2, Pe] \<and>
      dTz = zone_balance 25 18 19 500 0 default_Params
            + (- fst (hvac_power 18 24 default_Params)) / C_z_kW default_Params \<and>
      0 < (- fst (hvac_power 18 24 default_Params)) / C_z_kW default_Params"
  using hvac_term_drives_toward_setpoint [of default_Params "[''T_out'' \<mapsto> 25, ''N_occ'' \<mapsto> 5, ''T_set'' \<mapsto> 24]"
               25 5 24 18 19 600]
  by (simp add: default_Params_def)

text \<open>
  Claim C2, as the spec states it, at the default parameters: the heating branch would charge
  \<open>|Q| / COP_heat + P_fan\<close>. The code does not: at \<open>T_z = 18\<close>, \<open>T_set = 24\<close> its power
  differs from that value.
\<close>

theorem heating_power_not_COP_heat:
  "snd (hvac_power 18 24 default_Params) \<noteq>
     \<bar>fst (hvac_power 18 24 default_Params)\<bar> / COP_heat default_Params + P_fan_des default_Params"
  by (simp add: hvac_power_def default_Params_def Let_def)

text \<open>
  Claim C2, amended. For \<open>T_z < T_set\<close>, \<^verbatim>\<open>hvac_power\<close> returns
  \<open>Q = m_air * c_p * (T_z - T_set)\<close>, negative for positive \<open>m_air\<close> and \<open>c_p\<close>, and
  \<open>P_e = |Q| / COP + P_fan\<close>, where \<open>COP\<close> is the one field \<^verbatim>\<open>COP\<close> that the cooling branch
  reads too; the fields \<^verbatim>\<open>COP_heat\<close> and \<^verbatim>\<open>COP_cool\<close> are not read.
\<close>

theorem heating_power_uses_COP:
  assumes "Tz < Tset"
  shows "hvac_power Tz Tset p =
           (m_air_des p * c_p p * (Tz - Tset),
            \<bar>m_air_des p * c_p p * (Tz - Tset)\<bar> / COP p + P_fan_des p) \<and>
         (0 < m_air_des p \<and> 0 < c_p p \<longrightarrow> fst (hvac_power Tz Tset p) < 0)"
proof -
  have "m_air_des p * c_p p * (Tz - Tset) < 0" if "0 < m_air_des p" "0 < c_p p"
    using that assms by (simp add: mult_pos_neg)
  then show ?thesis using assms by (simp add: hvac_power_heating)
qed

theorem heating_power_uses_COP_witness:
  "(18::real) < 24 \<and> hvac_power 18 24 default_Params = (- 1509 / 100, 1929 / 350)"
  using heating_power_uses_COP [of 18 24 default_Params] by (simp add: default_Params_def)

text \<open>
  Claim C3, as the spec states it: the scenario step would return \<open>P_e = 0\<close>. The step
  returns, and its power is not zero.
\<close>

theorem scenario_power_not_zero:
  "\<not> isl (step (HVACSimulator_init [18, 19, 600] default_Params 300)
             [''T_out'' \<mapsto> 25, ''N_occ'' \<mapsto> 5, ''T_set'' \<mapsto> 24, ''I_sol'' \<mapsto> 0]) \<and>
   P_e (snd (projr (step (HVACSimulator_init [18, 19, 600] default_Params 300)
             [''T_out'' \<mapsto> 25, ''N_occ'' \<mapsto> 5, ''T_set'' \<mapsto> 24, ''I_sol'' \<mapsto> 0]))) \<noteq> 0"
  by (simp add: step_def HVACSimulator_init_def rhs_def hvac_power_def zone_balance_def
      default_Params_def C_z_kW_def C_w_kW_def Let_def)

text \<open>
  Claim C3, amended. With the default parameters, the state \<open>[18, 19, 600]\<close> and a step of
  300 s, the scenario event gives \<open>P_e = 1929/350\<close> kW (the heating branch,
  \<open>|Q| / COP + P_fan\<close> with \<open>Q = -15.09\<close>), and \<open>CO2_z = 7495/12\<close>, which is above 600.
\<close>

theorem scenario_step_result:
  "step (HVACSimulator_init [18, 19, 600] default_Params 300)
        [''T_out'' \<mapsto> 25, ''N_occ'' \<mapsto> 5, ''T_set'' \<mapsto> 24, ''I_sol'' \<mapsto> 0]
     = Inr (\<lparr> state = [119129 / 6000, 7619 / 400, 7495 / 12], params = default_Params,
              dt_s = 300, cumulative_energy_kwh = 643 / 1400 \<rparr>,
            \<lparr> T_z = 119129 / 6000, T_w = 7619 / 400, CO2_z = 7495 / 12, P_e = 1929 / 350,
              E_KWh_cumulative = 643 / 1400 \<rparr>) \<and>
   (0::real) < 1929 / 350 \<and> (600::real) < 7495 / 12"
  by (simp add: step_def HVACSimulator_init_def rhs_def hvac_power_def zone_balance_def
      default_Params_def C_z_kW_def C_w_kW_def Let_def)

text \<open>
  Claim C4. For positive air mass flow, specific heat, COP and fan power, the power that
  \<^verbatim>\<open>hvac_power\<close> returns is never negative; and in every run of \<^verbatim>\<open>step\<close> calls on a
  simulator fresh from its constructor, with a positive step size, every result has
  \<open>P_e \<ge> 0\<close> and the cumulative energies, from the initial 0 on, never decrease.
\<close>

theorem energy_monotone:
  assumes "0 < m_air_des p" "0 < c_p p" "0 < COP p" "0 < P_fan_des p" "0 < dt"
  shows "0 \<le> snd (hvac_power Tz Tset p) \<and>
         (steps (HVACSimulator_init st p dt) ins = Inr (sim', rs) \<longrightarrow>
            (\<forall>r \<in> set rs. 0 \<le> P_e r) \<and>
            sorted (0 # map E_KWh_cumulative rs) \<and>
            cumulative_energy_kwh sim' = last (0 # map E_KWh_cumulative rs))"
proof -
  have "steps (HVACSimulator_init st p dt) ins = Inr (sim', rs) \<Longrightarrow>
            (\<forall>r \<in> set rs. 0 \<le> P_e r) \<and>
            sorted (0 # map E_KWh_cumulative rs) \<and>
            cumulative_energy_kwh sim' = last (0 # map E_KWh_cumulative rs)"
    using steps_energy [of "HVACSimulator_init st p dt" ins sim' rs] assms
    by (simp add: HVACSimulator_init_def)
  then show ?thesis using hvac_power_nonneg [OF assms(1-4)] by blast
qed

theorem energy_monotone_witness:
  "0 < m_air_des default_Params \<and> 0 < c_p default_Params \<and> 0 < COP default_Params \<and>
   0 < P_fan_des default_Params \<and> (0::int) < 300 \<and>
   steps (HVACSimulator_init [18, 19, 600] default_Params 300)
         [[''T_out'' \<mapsto> 25, ''N_occ'' \<mapsto> 5, ''T_set'' \<mapsto> 24, ''I_sol'' \<mapsto> 0]]
     = Inr (\<lparr> state = [119129 / 6000, 7619 / 400, 7495 / 12], params = default_Params,
              dt_s = 300, cumulative_energy_kwh = 643 / 1400 \<rparr>,
            [\<lparr> T_z = 119129 / 6000, T_w = 7619 / 400, CO2_z = 7495 / 12, P_e = 1929 / 350,
               E_KWh_cumulative = 643 / 1400 \<rparr>]) \<and>
   0 \<le> snd (hvac_power 18 24 default_Params) \<and>
   sorted [0, 643 / 1400 :: real]"
proof -
  have pos: "0 < m_air_des default_Params" "0 < c_p default_Params" "0 < COP default_Params"
    "0 < P_fan_des default_Params" "(0::int) < 300"
    by (simp_all add: default_Params_def)
  have run: "steps (HVACSimulator_init [18, 19, 600] default_Params 300)
         [[''T_out'' \<mapsto> 25, ''N_occ'' \<mapsto> 5, ''T_set'' \<mapsto> 24, ''I_sol'' \<mapsto> 0]]
     = Inr (\<lparr> state = [119129 / 6000, 7619 / 400, 7495 / 12], params = default_Params,
              dt_s = 300, cumulative_energy_kwh = 643 / 1400 \<rparr>,
            [\<lparr> T_z = 119129 / 6000, T_w = 7619 / 400, CO2_z = 7495 / 12, P_e = 1929 / 350,
               E_KWh_cumulative = 643 / 1400 \<rparr>])"
    by (simp add: step_def HVACSimulator_init_def rhs_def hvac_power_def zone_balance_def
        default_Params_def C_z_kW_def C_w_kW_def Let_def)
  show ?thesis
    using pos run
      energy_monotone [OF pos, where Tz = 18 and Tset = 24 and st = "[18, 19, 600]"
        and ins = "[[''T_out'' \<mapsto> 25, ''N_occ'' \<mapsto> 5, ''T_set'' \<mapsto> 24, ''I_sol'' \<mapsto> 0]]"]
    by simp
qed

text \<open>
  Claim C5. Whenever the physics model returns derivatives \<open>d\<close> at the state the simulator
  has before the call, \<^verbatim>\<open>step\<close> returns; the three state components have advanced by
  derivative times \<^verbatim>\<open>dt_s\<close>, the cumulative energy by \<open>P_e * dt_s / 3600\<close>; \<^verbatim>\<open>dt_s\<close> and the
  parameters are as before; and the result holds the state and energy after the update.
\<close>

theorem step_forward_euler:
  assumes "rhs (state sim) inp (params sim) = Inr d"
  shows "\<exists>sim' res.
           step sim inp = Inr (sim', res) \<and>
           state sim' = [state sim ! 0 + d ! 0 * real_of_int (dt_s sim),
                         state sim ! 1 + d ! 1 * real_of_int (dt_s sim),
                         state sim ! 2 + d ! 2 * real_of_int (dt_s sim)] \<and>
           cumulative_energy_kwh sim' =
             cumulative_energy_kwh sim + d ! 3 * real_of_int (dt_s sim) / 3600 \<and>
           dt_s sim' = dt_s sim \<and> params sim' = params sim \<and>
           T_z res = state sim' ! 0 \<and> T_w res = state sim' ! 1 \<and> CO2_z res = state sim' ! 2 \<and>
           P_e res = d ! 3 \<and> E_KWh_cumulative res = cumulative_energy_kwh sim'"
proof -
  obtain a b c where st: "state sim = [a, b, c]"
    using assms unfolding rhs_Inr_iff by blast
  obtain w x y z where d: "d = [w, x, y, z]"
    using assms unfolding rhs_Inr_iff by blast
  show ?thesis by (simp add: step_Inr [OF assms] st d)
qed

theorem step_forward_euler_witness:
  "rhs (state (HVACSimulator_init [18, 19, 600] default_Params 300))
       [''T_out'' \<mapsto> 25, ''N_occ'' \<mapsto> 5, ''T_set'' \<mapsto> 24]
       (params (HVACSimulator_init [18, 19, 600] default_Params 300))
     = Inr [55645 / 9000000, 19 / 120000, 59 / 720, 1929 / 350] \<and>
   (\<exists>sim' res.
       step (HVACSimulator_init [18, 19, 600] default_Params 300)
            [''T_out'' \<mapsto> 25, ''N_occ'' \<mapsto> 5, ''T_set'' \<mapsto> 24] = Inr (sim', res) \<and>
       state sim' = [357387 / 18000, 7619 / 400, 7495 / 12] \<and>
       cumulative_energy_kwh sim' = 643 / 1400 \<and> dt_s sim' = 300 \<and>
       T_z res = 357387 / 18000 \<and> P_e res = 1929 / 350 \<and> E_KWh_cumulative res = 643 / 1400)"
proof -
  have r: "rhs (state (HVACSimulator_init [18, 19, 600] default_Params 300))
       [''T_out'' \<mapsto> 25, ''N_occ'' \<mapsto> 5, ''T_set'' \<mapsto> 24]
       (params (HVACSimulator_init [18, 19, 600] default_Params 300))
     = Inr [55645 / 9000000, 19 / 120000, 59 / 720, 1929 / 350]"
    by (simp add: HVACSimulator_init_def rhs_def hvac_power_def zone_balance_def
      default_Params_def C_z_kW_def C_w_kW_def Let_def)
  show ?thesis using r step_forward_euler [OF r] by (auto simp: HVACSimulator_init_def)
qed

text \<open>
  Claim C6. The deque of dashboard.py starts empty and has \<^verbatim>\<open>maxlen = 288\<close>. After any sequence
  \<open>rs\<close> of appends it holds the last 288 entries of \<open>rs\<close> in the order of the appends, so
  its length is the smaller of \<open>length rs\<close> and 288 and never more than 288; after \<open>288 + k\<close>
  appends the oldest \<open>k\<close> are gone and the length is 288. The append is a total function: it
  has no failing case.
\<close>

theorem history_keeps_most_recent:
  "foldl (deque_append data_deque_maxlen) [] rs = drop (length rs - data_deque_maxlen) rs \<and>
   length (foldl (deque_append data_deque_maxlen) [] rs) = min (length rs) data_deque_maxlen \<and>
   length (foldl (deque_append data_deque_maxlen) [] rs) \<le> data_deque_maxlen \<and>
   (length rs = data_deque_maxlen + k \<longrightarrow>
      foldl (deque_append data_deque_maxlen) [] rs = drop k rs \<and>
      length (foldl (deque_append data_deque_maxlen) [] rs) = data_deque_maxlen)"
  by (auto simp: deque_history)

theorem history_keeps_most_recent_witness:
  "length [0 ..< 290] = data_deque_maxlen + 2 \<and>
   foldl (deque_append data_deque_maxlen) [] [0 ..< 290] = drop 2 [0 ..< 290]"
  using history_keeps_most_recent [of "[0 ..< 290]" 2] by (simp add: data_deque_maxlen_def)

text \<open>
  Claim C7, at a payload whose required field \<^verbatim>\<open>T_out\<close> is JSON null:
  \<^verbatim>\<open>{"T_out": null, "N_occ": 5, "T_set": 24.0}\<close>. \<^verbatim>\<open>float(None)\<close> raises TypeError, which
  \<^verbatim>\<open>except (KeyError, ValueError)\<close> does not catch: in both callbacks the globals stay as they
  were, but the exception leaves the callback instead of being rejected there.
\<close>

theorem null_field_escapes_callback:
  "on_sensor_data_received sf si g
      (PDict [''T_out'' \<mapsto> PNone, ''N_occ'' \<mapsto> PInt 5, ''T_set'' \<mapsto> PFloat 24]) now
     = (g, Some TypeError) \<and>
   on_sensor_data_received_live sf si sim
      (PDict [''T_out'' \<mapsto> PNone, ''N_occ'' \<mapsto> PInt 5, ''T_set'' \<mapsto> PFloat 24])
     = (sim, Some TypeError)"
  by (simp add: on_sensor_data_received_def try_body_def dashboard_inputs_def
      on_sensor_data_received_live_def try_body_live_def live_inputs_def
      and_then_def getitem_def int_of_def float_of_def caught_def)

text \<open>
  Claim C8, as the spec states it: a parameter set with a non-positive constant could not be
  built or used. With \<open>COP = -3.5\<close> the parameter set is built, the simulator is created
  and a step runs, returning a negative power.
\<close>

theorem nonpositive_params_accepted:
  "COP (default_Params \<lparr> COP := - 7 / 2 \<rparr>) \<le> 0 \<and>
   \<not> isl (step (HVACSimulator_init [18, 19, 600] (default_Params \<lparr> COP := - 7 / 2 \<rparr>) 300)
             [''T_out'' \<mapsto> 25, ''N_occ'' \<mapsto> 5, ''T_set'' \<mapsto> 24, ''I_sol'' \<mapsto> 0]) \<and>
   P_e (snd (projr (step (HVACSimulator_init [18, 19, 600] (default_Params \<lparr> COP := - 7 / 2 \<rparr>) 300)
             [''T_out'' \<mapsto> 25, ''N_occ'' \<mapsto> 5, ''T_set'' \<mapsto> 24, ''I_sol'' \<mapsto> 0]))) < 0"
  by (simp add: step_def HVACSimulator_init_def rhs_def hvac_power_def zone_balance_def
      default_Params_def C_z_kW_def C_w_kW_def Let_def)

text \<open>
  Claim C8, amended. Nothing validates the parameters: the constructor of the simulator stores
  every parameter set as it is, whatever the sign of its fields, and \<^verbatim>\<open>step\<close> never looks at
  a sign either: whether it returns or raises is the same for every two parameter sets, and
  depends on the state and the input only.
\<close>

theorem params_never_validated:
  "params (HVACSimulator_init st p dt) = p \<and>
   isl (step (HVACSimulator_init st p dt) inp) = isl (step (HVACSimulator_init st p' dt) inp)"
proof -
  have "isl (step (HVACSimulator_init st q dt) inp) = isl (rhs st inp q)" for q
    by (simp add: step_isl HVACSimulator_init_def)
  then show ?thesis
    using rhs_isl [of st inp p] rhs_isl [of st inp p'] by (simp add: HVACSimulator_init_def)
qed

text \<open>
  Claim C9. With positive volume, air-change rate and step size, \<open>ACH * dt / 3600 \<le> 1\<close>, and
  inputs that all have \<open>N_occ = 0\<close> (and their required keys), every run of steps returns one
  result for each input; along the sequence of CO2 values, from the initial one on, the
  distance to 400 ppm never grows; and from an initial value of at least 400 no value falls
  below 400.
\<close>

theorem co2_approaches_baseline:
  assumes "0 < V p" "0 < ACH p" "0 < dt" "ACH p * real_of_int dt / 3600 \<le> 1"
    and "\<forall>inp \<in> set ins. inp ''N_occ'' = Some 0 \<and> inp ''T_out'' \<noteq> None \<and> inp ''T_set'' \<noteq> None"
  shows "\<exists>sim' rs.
           steps (HVACSimulator_init [Tz, Tw, C] p dt) ins = Inr (sim', rs) \<and>
           length rs = length ins \<and>
           sorted_wrt (\<lambda>c c'. \<bar>c' - 400\<bar> \<le> \<bar>c - 400\<bar>) (C # map CO2_z rs) \<and>
           (400 \<le> C \<longrightarrow> (\<forall>r \<in> set rs. 400 \<le> CO2_z r))"
proof -
  have a: "0 \<le> ACH p * real_of_int dt / 3600" using assms(2,3) by simp
  show ?thesis
    using steps_co2 [of "HVACSimulator_init [Tz, Tw, C] p dt" Tz Tw C ins] assms a
    by (simp add: HVACSimulator_init_def)
qed

theorem co2_approaches_baseline_witness:
  "0 < V default_Params \<and> 0 < ACH default_Params \<and> (0::int) < 300 \<and>
   ACH default_Params * real_of_int 300 / 3600 \<le> 1 \<and>
   (\<exists>sim' rs.
       steps (HVACSimulator_init [18, 19, 600] default_Params 300)
             [[''T_out'' \<mapsto> 25, ''N_occ'' \<mapsto> 0, ''T_set'' \<mapsto> 24],
              [''T_out'' \<mapsto> 26, ''N_occ'' \<mapsto> 0, ''T_set'' \<mapsto> 24]] = Inr (sim', rs) \<and>
       length rs = 2 \<and>
       sorted_wrt (\<lambda>c c'. \<bar>c' - 400\<bar> \<le> \<bar>c - 400\<bar>) (600 # map CO2_z rs) \<and>
       (\<forall>r \<in> set rs. 400 \<le> CO2_z r))"
proof -
  have h: "0 < V default_Params" "0 < ACH default_Params" "(0::int) < 300"
    "ACH default_Params * real_of_int 300 / 3600 \<le> 1"
    by (simp_all add: default_Params_def)
  have i: "\<forall>inp \<in> set [[''T_out'' \<mapsto> 25, ''N_occ'' \<mapsto> 0, ''T_set'' \<mapsto> 24],
              [''T_out'' \<mapsto> 26, ''N_occ'' \<mapsto> 0, ''T_set'' \<mapsto> (24::real)]].
           inp ''N_occ'' = Some 0 \<and> inp ''T_out'' \<noteq> None \<and> inp ''T_set'' \<noteq> None"
    by simp
  show ?thesis using h co2_approaches_baseline [OF h i, of 18 19 600] by auto
qed

text \<open>
  Claim C10. For every initial state, sequence of rows, parameter set and step size, the loop
  of \<^verbatim>\<open>run_simulation\<close>, started with energy 0, and repeated \<^verbatim>\<open>step\<close> calls on a simulator
  constructed with the same state either raise the same exception or produce the same
  sequence of \<open>(T_z, T_w, CO2_z, P_e, cumulative energy)\<close>.
\<close>

theorem batch_equals_stateful:
  "map_sum id (map snd) (run_simulation_loop st 0 rws p dt)
   = map_sum id (\<lambda>(s, rs). map (\<lambda>r. (T_z r, T_w r, CO2_z r, P_e r, E_KWh_cumulative r)) rs)
       (steps (HVACSimulator_init st p dt) (map snd rws))"
  using loop_eq_steps [of "HVACSimulator_init st p dt" rws]
  by (simp add: HVACSimulator_init_def)

end
